theory Spec2Isabelle
  imports Main
begin

section \<open>Enumerations and their wire strings\<close>

text \<open>
  A TypeScript string enum is a finite set of tags, each carrying the literal that is
  written into the template. The tag is a constructor here and the literal is read with
  the \<open>_value\<close> function of the enum; wherever the source hands an enum member to a
  low-level resource (whose fields are plain strings) the model applies that function.
\<close>

subsection \<open>aws-cloudfront/lib/origin-request-policy.ts\<close>

datatype CookiesCacheBehaviorType = Cookies_NONE | Cookies_WHITELIST | Cookies_ALL

fun CookiesCacheBehaviorType_value :: "CookiesCacheBehaviorType \<Rightarrow> string" where
  "CookiesCacheBehaviorType_value Cookies_NONE = ''none''"
| "CookiesCacheBehaviorType_value Cookies_WHITELIST = ''whitelist''"
| "CookiesCacheBehaviorType_value Cookies_ALL = ''all''"

datatype HeadersCacheBehaviorType =
    Headers_NONE
  | Headers_WHITELIST
  | Headers_ALL_VIEWER
  | Headers_ALL_VIEWER_AND_WHITELIST_CLOUDFRONT

fun HeadersCacheBehaviorType_value :: "HeadersCacheBehaviorType \<Rightarrow> string" where
  "HeadersCacheBehaviorType_value Headers_NONE = ''none''"
| "HeadersCacheBehaviorType_value Headers_WHITELIST = ''whitelist''"
| "HeadersCacheBehaviorType_value Headers_ALL_VIEWER = ''allViewer''"
| "HeadersCacheBehaviorType_value Headers_ALL_VIEWER_AND_WHITELIST_CLOUDFRONT =
     ''allViewerAndWhitelistCloudFront''"

datatype QueryStringCacheBehaviorType =
  QueryString_NONE | QueryString_WHITELIST | QueryString_ALL

fun QueryStringCacheBehaviorType_value :: "QueryStringCacheBehaviorType \<Rightarrow> string" where
  "QueryStringCacheBehaviorType_value QueryString_NONE = ''none''"
| "QueryStringCacheBehaviorType_value QueryString_WHITELIST = ''whitelist''"
| "QueryStringCacheBehaviorType_value QueryString_ALL = ''all''"

subsection \<open>The HTTP integration enums\<close>

datatype HttpIntegrationType = LAMBDA_PROXY | HTTP_PROXY

fun HttpIntegrationType_value :: "HttpIntegrationType \<Rightarrow> string" where
  "HttpIntegrationType_value LAMBDA_PROXY = ''AWS_PROXY''"
| "HttpIntegrationType_value HTTP_PROXY = ''HTTP_PROXY''"

datatype HttpConnectionType = VPC_LINK | INTERNET

fun HttpConnectionType_value :: "HttpConnectionType \<Rightarrow> string" where
  "HttpConnectionType_value VPC_LINK = ''VPC_LINK''"
| "HttpConnectionType_value INTERNET = ''INTERNET''"

datatype HttpIntegrationSubtype =
    EVENTBRIDGE_PUTEVENTS
  | SQS_SENDMESSAGE
  | SQS_RECEIVEMESSAGE
  | SQS_DELETEMESSAGE

fun HttpIntegrationSubtype_value :: "HttpIntegrationSubtype \<Rightarrow> string" where
  "HttpIntegrationSubtype_value EVENTBRIDGE_PUTEVENTS = ''EventBridge-PutEvents''"
| "HttpIntegrationSubtype_value SQS_SENDMESSAGE = ''SQS-SendMessage''"
| "HttpIntegrationSubtype_value SQS_RECEIVEMESSAGE = ''SQS-ReceiveMessage''"
| "HttpIntegrationSubtype_value SQS_DELETEMESSAGE = ''SQS-DeleteMessage''"

subsection \<open>PayloadFormatVersion\<close>

text \<open>
  The class has one field, \<open>version\<close>, a private constructor that stores its argument in
  it, two static instances and the static method \<open>custom\<close>.
\<close>

datatype PayloadFormatVersion = PayloadFormatVersion (version: string)

definition VERSION_1_0 :: PayloadFormatVersion where
  "VERSION_1_0 = PayloadFormatVersion ''1.0''"

definition VERSION_2_0 :: PayloadFormatVersion where
  "VERSION_2_0 = PayloadFormatVersion ''2.0''"

definition custom :: "string \<Rightarrow> PayloadFormatVersion" where
  "custom v = PayloadFormatVersion v"

section \<open>Constructs, errors and low-level resources\<close>

text \<open>
  A construct is a node of the output tree: the root, a stack, or another child of a
  scope under an identifier. A thrown \<open>Error\<close> is the left summand of the result.

  Both resource classes extend \<open>Resource\<close> of \<open>@aws-cdk/core\<close> and begin with
  \<open>super(scope, id)\<close>. That constructor is an argument of the model of each class: for
  a scope and an identifier it throws, or it returns and \<open>this\<close> is the node
  \<open>Child scope id\<close>.
\<close>

datatype Construct = App | Stack Construct string | Child Construct string

datatype error = Error string

text \<open>
  Modelled from the spec: whether a node lies inside a stack. The resource nodes of the
  spec belong to the output tree of a deployment unit; the root alone has none.
\<close>

fun hasStack :: "Construct \<Rightarrow> bool" where
  "hasStack App = False"
| "hasStack (Stack scope id') = True"
| "hasStack (Child scope id') = hasStack scope"

text \<open>Modelled from the spec: the scope and the identifier under which a node was made.\<close>

fun scopeAndId :: "Construct \<Rightarrow> (Construct \<times> string) option" where
  "scopeAndId App = None"
| "scopeAndId (Stack scope id') = Some (scope, id')"
| "scopeAndId (Child scope id') = Some (scope, id')"

text \<open>
  Modelled from the spec: the constructor of the base class \<open>Resource\<close> of
  \<open>@aws-cdk/core\<close>, which is not among the sources, in a tree given by the list of its
  nodes. The spec has construction fail at once with a descriptive error. The
  constructor throws for an empty identifier, for an identifier that the scope has
  already, and for a scope that is not inside a stack; the checks are made in this order.
\<close>

definition Resource_super :: "Construct list \<Rightarrow> Construct \<Rightarrow> string \<Rightarrow> error + unit" where
  "Resource_super tree scope id' =
     (if id' = [] then Inl (Error ''empty construct id'')
      else if Some (scope, id') \<in> set (map scopeAndId tree)
        then Inl (Error ''duplicate construct id'')
      else if \<not> hasStack scope then Inl (Error ''no enclosing stack'')
      else Inr ())"

text \<open>A plain value of the template (the \<open>object\<close> type of \<open>requestParameters\<close>).\<close>

datatype json =
    JString string
  | JNumber int
  | JArray "json list"
  | JObject "(string \<times> json) list"

section \<open>The HTTP integration\<close>

text \<open>
  \<open>IHttpApi\<close> is declared in \<open>./api\<close>; the constructor reads its \<open>apiId\<close> only.
  \<open>HttpMethod\<close> is an enum of \<open>./route\<close>; a member is carried as its string, and
  the property \<open>method\<close> is written with a prime.
\<close>

record IHttpApi =
  apiId :: string

text \<open>
  The class IntegrationCredentials holds the credential ARN in its field \<open>credentials\<close>;
  the property of the same name in HttpIntegrationProps is written
  \<open>integrationCredentials\<close> here.
\<close>

datatype IntegrationCredentials = IntegrationCredentials (credentials: string)

definition useCallerIdentity :: IntegrationCredentials where
  "useCallerIdentity = IntegrationCredentials ''arn:aws:iam::*:user/*''"

record HttpIntegrationProps =
  httpApi :: IHttpApi
  integrationType :: HttpIntegrationType
  integrationSubtype :: "HttpIntegrationSubtype option"
  integrationUri :: "string option"
  method' :: "string option"
  connectionId :: "string option"
  connectionType :: "HttpConnectionType option"
  integrationCredentials :: "IntegrationCredentials option"
  payloadFormatVersion :: "PayloadFormatVersion option"
  requestParameters :: "json option"

text \<open>
  The configuration record handed to the low-level resource. Its fields are plain
  strings, so an enum member arrives as its wire string; an absent optional property
  stays absent.
\<close>

record CfnIntegrationProps =
  cfn_apiId :: string
  cfn_integrationType :: string
  cfn_integrationSubtype :: "string option"
  cfn_integrationUri :: "string option"
  cfn_integrationMethod :: "string option"
  cfn_connectionId :: "string option"
  cfn_connectionType :: "string option"
  cfn_credentialsArn :: "string option"
  cfn_payloadFormatVersion :: "string option"
  cfn_requestParameters :: "json option"

record HttpIntegration =
  integrationId :: string
  this_httpApi :: IHttpApi

text \<open>
  The constructor of HttpIntegration. Its first argument is the constructor of the base
  class, its second the generated class CfnIntegration: called with the scope, the
  identifier and the configuration record, that one throws or returns the reference of
  the new resource. An error of either ends the construction. The result of a
  successful construction is the instance together with the low-level resources it has
  put under itself, each with the record it was given.
\<close>

definition HttpIntegration_new ::
  "(Construct \<Rightarrow> string \<Rightarrow> error + unit)
    \<Rightarrow> (Construct \<Rightarrow> string \<Rightarrow> CfnIntegrationProps \<Rightarrow> error + string)
    \<Rightarrow> Construct \<Rightarrow> string \<Rightarrow> HttpIntegrationProps
    \<Rightarrow> error + HttpIntegration \<times> (Construct \<times> CfnIntegrationProps) list" where
  "HttpIntegration_new Resource' CfnIntegration' scope id' props =
     (case Resource' scope id' of
        Inl e \<Rightarrow> Inl e
      | Inr _ \<Rightarrow>
      let this = Child scope id';
          cfnProps = \<lparr>
            cfn_apiId = apiId (httpApi props),
            cfn_integrationType = HttpIntegrationType_value (integrationType props),
            cfn_integrationSubtype =
              map_option HttpIntegrationSubtype_value (integrationSubtype props),
            cfn_integrationUri = integrationUri props,
            cfn_integrationMethod = method' props,
            cfn_connectionId = connectionId props,
            cfn_connectionType = map_option HttpConnectionType_value (connectionType props),
            cfn_credentialsArn = map_option credentials (integrationCredentials props),
            cfn_payloadFormatVersion = map_option version (payloadFormatVersion props),
            cfn_requestParameters = requestParameters props \<rparr>
      in case CfnIntegration' this ''Resource'' cfnProps of
           Inl e \<Rightarrow> Inl e
         | Inr ref \<Rightarrow>
             Inr (\<lparr> integrationId = ref, this_httpApi = httpApi props \<rparr>,
                  [(Child this ''Resource'', cfnProps)]))"

text \<open>
  Modelled from the spec: the generated low-level resource constructors (CfnIntegration
  of \<open>../apigatewayv2.generated\<close> and CfnOriginRequestPolicy of
  \<open>./cloudfront.generated\<close>), which are not among the sources. The spec describes them as
  opaque: such a constructor accepts a configuration record and returns a reference or
  identifier. In the program the reference is an opaque token; the path of the new node
  stands for it.
\<close>

text \<open>Modelled from the spec: the reference or identifier of a resource node.\<close>

fun pathOf :: "Construct \<Rightarrow> string" where
  "pathOf App = []"
| "pathOf (Stack scope id') = (if pathOf scope = [] then id' else pathOf scope @ ''/'' @ id')"
| "pathOf (Child scope id') = (if pathOf scope = [] then id' else pathOf scope @ ''/'' @ id')"

text \<open>
  Modelled from the spec: a low-level resource constructor, which accepts every
  configuration record and returns the reference of the node it creates.
\<close>

definition CfnResource :: "Construct \<Rightarrow> string \<Rightarrow> 'props \<Rightarrow> error + string" where
  "CfnResource scope id' props = Inr (pathOf (Child scope id'))"

section \<open>The origin request policy\<close>

record CookiesConfig =
  cookieBehavior :: CookiesCacheBehaviorType
  cookies :: "string list option"

record HeadersConfig =
  headerBehavior :: HeadersCacheBehaviorType
  headers :: "string list option"

record QueryStringConfig =
  queryStringBehavior :: QueryStringCacheBehaviorType
  queryStrings :: "string list option"

record OriginRequestPolicyProps =
  name :: string
  comment :: "string option"
  cookiesConfig :: CookiesConfig
  headersConfig :: HeadersConfig
  queryStringsConfig :: QueryStringConfig

text \<open>
  The record given to CfnOriginRequestPolicy. The three nested configurations are the
  caller's objects themselves; in the low-level record their behaviour field is a string,
  which for an enum member is its wire string.
\<close>

record CookiesConfigProperty =
  cfn_cookieBehavior :: string
  cfn_cookies :: "string list option"

record HeadersConfigProperty =
  cfn_headerBehavior :: string
  cfn_headers :: "string list option"

record QueryStringsConfigProperty =
  cfn_queryStringBehavior :: string
  cfn_queryStrings :: "string list option"

record OriginRequestPolicyConfigProperty =
  cfn_name :: string
  cfn_comment :: "string option"
  cfn_cookiesConfig :: CookiesConfigProperty
  cfn_headersConfig :: HeadersConfigProperty
  cfn_queryStringsConfig :: QueryStringsConfigProperty

record CfnOriginRequestPolicyProps =
  originRequestPolicyConfig :: OriginRequestPolicyConfigProperty

definition asCookiesConfigProperty :: "CookiesConfig \<Rightarrow> CookiesConfigProperty" where
  "asCookiesConfigProperty c =
     \<lparr> cfn_cookieBehavior = CookiesCacheBehaviorType_value (cookieBehavior c),
       cfn_cookies = cookies c \<rparr>"

definition asHeadersConfigProperty :: "HeadersConfig \<Rightarrow> HeadersConfigProperty" where
  "asHeadersConfigProperty h =
     \<lparr> cfn_headerBehavior = HeadersCacheBehaviorType_value (headerBehavior h),
       cfn_headers = headers h \<rparr>"

definition asQueryStringsConfigProperty ::
  "QueryStringConfig \<Rightarrow> QueryStringsConfigProperty" where
  "asQueryStringsConfigProperty q =
     \<lparr> cfn_queryStringBehavior = QueryStringCacheBehaviorType_value (queryStringBehavior q),
       cfn_queryStrings = queryStrings q \<rparr>"

text \<open>
  IOriginRequestPolicy has the two attributes below; the class OriginRequestPolicy and
  the anonymous class of \<open>fromId\<close> both implement it. \<open>fromId\<close> gives the instance of
  the anonymous class, which its constructor fills after \<open>super(scope, logicalId)\<close>.
\<close>

record OriginRequestPolicy =
  originRequestPolicyId :: string
  lastModifiedTime :: string

definition fromId :: "Construct \<Rightarrow> string \<Rightarrow> string \<Rightarrow> OriginRequestPolicy" where
  "fromId scope logicalId physicalId =
     \<lparr> originRequestPolicyId = physicalId, lastModifiedTime = [] \<rparr>"

text \<open>
  The constructor: after \<open>super(scope, id)\<close> the two field initialisers run, then the
  low-level resource is created and its \<open>attrId\<close> is stored. As for the HTTP
  integration, the constructor of the base class is the first argument and the
  generated class the second, which returns the attribute or throws.
\<close>

definition OriginRequestPolicy_new ::
  "(Construct \<Rightarrow> string \<Rightarrow> error + unit)
    \<Rightarrow> (Construct \<Rightarrow> string \<Rightarrow> CfnOriginRequestPolicyProps \<Rightarrow> error + string)
    \<Rightarrow> Construct \<Rightarrow> string \<Rightarrow> OriginRequestPolicyProps
    \<Rightarrow> error + OriginRequestPolicy \<times> (Construct \<times> CfnOriginRequestPolicyProps) list" where
  "OriginRequestPolicy_new Resource' CfnOriginRequestPolicy' scope id' props =
     (case Resource' scope id' of
        Inl e \<Rightarrow> Inl e
      | Inr _ \<Rightarrow>
      let this = Child scope id';
          init = \<lparr> originRequestPolicyId = [], lastModifiedTime = [] \<rparr>;
          cfnProps = \<lparr> originRequestPolicyConfig = \<lparr>
            cfn_name = name props,
            cfn_comment = comment props,
            cfn_cookiesConfig = asCookiesConfigProperty (cookiesConfig props),
            cfn_headersConfig = asHeadersConfigProperty (headersConfig props),
            cfn_queryStringsConfig =
              asQueryStringsConfigProperty (queryStringsConfig props) \<rparr> \<rparr>
      in case CfnOriginRequestPolicy' this ''Resource'' cfnProps of
           Inl e \<Rightarrow> Inl e
         | Inr attrId \<Rightarrow>
             Inr (init\<lparr> originRequestPolicyId := attrId \<rparr>,
                  [(Child this ''Resource'', cfnProps)]))"

text \<open>
  Modelled from the spec: the rendering of the low-level record into the template, done
  by the generated module \<open>./cloudfront.generated\<close>, which is not among the sources. The
  key names and the omission of an absent optional property are those of the expected
  templates in \<open>test/origin-request-policy.test.ts\<close>.
\<close>

text \<open>Modelled from the spec: a key that is written only when its value is present.\<close>

definition optionalKey :: "string \<Rightarrow> ('a \<Rightarrow> json) \<Rightarrow> 'a option \<Rightarrow> (string \<times> json) list" where
  "optionalKey k f v = (case v of None \<Rightarrow> [] | Some x \<Rightarrow> [(k, f x)])"

text \<open>Modelled from the spec: a list of names as a template value.\<close>

definition stringList :: "string list \<Rightarrow> json" where
  "stringList xs = JArray (map JString xs)"

text \<open>Modelled from the spec: the rendered cookies, headers and query strings sections.\<close>

definition renderCookiesConfig :: "CookiesConfigProperty \<Rightarrow> json" where
  "renderCookiesConfig c =
     JObject ((''CookieBehavior'', JString (cfn_cookieBehavior c))
              # optionalKey ''Cookies'' stringList (cfn_cookies c))"

definition renderHeadersConfig :: "HeadersConfigProperty \<Rightarrow> json" where
  "renderHeadersConfig h =
     JObject ((''HeaderBehavior'', JString (cfn_headerBehavior h))
              # optionalKey ''Headers'' stringList (cfn_headers h))"

definition renderQueryStringsConfig :: "QueryStringsConfigProperty \<Rightarrow> json" where
  "renderQueryStringsConfig q =
     JObject ((''QueryStringBehavior'', JString (cfn_queryStringBehavior q))
              # optionalKey ''QueryStrings'' stringList (cfn_queryStrings q))"

text \<open>Modelled from the spec: the rendered properties of the whole resource.\<close>

definition renderOriginRequestPolicy :: "CfnOriginRequestPolicyProps \<Rightarrow> json" where
  "renderOriginRequestPolicy p =
     (let c = originRequestPolicyConfig p in
      JObject [(''OriginRequestPolicyConfig'', JObject (
        (''Name'', JString (cfn_name c))
        # optionalKey ''Comment'' JString (cfn_comment c)
        @ [(''CookiesConfig'', renderCookiesConfig (cfn_cookiesConfig c)),
           (''HeadersConfig'', renderHeadersConfig (cfn_headersConfig c)),
           (''QueryStringsConfig'', renderQueryStringsConfig (cfn_queryStringsConfig c))]))])"

section \<open>The event bus target\<close>

text \<open>
  A capability statement of \<open>aws-iam\<close>: an action set and a resource set. Two statements
  built from equal sets are the same grant.
\<close>

record PolicyStatement =
  actions :: "string list"
  resources :: "string list"

text \<open>
  A principal is a role handed in by the caller, or the role synthesized for a scope.
\<close>

datatype IRole = Role string | EventsRole Construct

record EventBusProps =
  eventBusArn :: string
  role :: "IRole option"

record EventBus =
  this_eventBusArn :: string
  this_role :: "IRole option"

definition EventBus_new :: "EventBusProps \<Rightarrow> EventBus" where
  "EventBus_new props = \<lparr> this_eventBusArn = eventBusArn props, this_role = role props \<rparr>"

record RuleTargetConfig =
  target_id :: string
  target_arn :: string
  target_role :: IRole

definition putEventStatement :: "EventBus \<Rightarrow> PolicyStatement" where
  "putEventStatement this =
     \<lparr> actions = [''events:PutEvents''], resources = [this_eventBusArn this] \<rparr>"

text \<open>
  \<open>bind\<close>, with the two operations it calls outside the class as arguments:
  \<open>addToPolicy\<close> of the role and \<open>singletonEventRole\<close> of \<open>./util\<close>. Both act on the shared
  state \<open>w\<close> of the caller's context, which is passed in and returned. The optional
  argument \<open>id\<close> is a string or undefined; the empty string is falsy.
\<close>

definition bind_with ::
  "(IRole \<Rightarrow> PolicyStatement \<Rightarrow> 'w \<Rightarrow> 'w)
    \<Rightarrow> (Construct \<Rightarrow> PolicyStatement list \<Rightarrow> 'w \<Rightarrow> IRole \<times> 'w)
    \<Rightarrow> EventBus \<Rightarrow> Construct \<Rightarrow> string option \<Rightarrow> 'w \<Rightarrow> RuleTargetConfig \<times> 'w" where
  "bind_with addToPolicy' singletonEventRole' this rule id' w =
     (let w1 = (case this_role this of
                  Some r \<Rightarrow> addToPolicy' r (putEventStatement this) w
                | None \<Rightarrow> w);
          (role', w2) = (case this_role this of
                  Some r \<Rightarrow> (r, w1)
                | None \<Rightarrow> singletonEventRole' rule [putEventStatement this] w1)
      in (\<lparr> target_id = (case id' of Some s \<Rightarrow> if s \<noteq> [] then s else [] | None \<Rightarrow> []),
            target_arn = this_eventBusArn this,
            target_role = role' \<rparr>, w2))"

text \<open>
  Modelled from the spec: the identity primitive \<open>addToPolicy\<close> of \<open>aws-iam\<close> and the
  helper \<open>singletonEventRole\<close> of \<open>./util\<close>, neither of which is among the sources, and
  the side table they share. The spec keeps the default principals in a side table keyed
  by scope; a grant is attached add-if-absent and never removed; for a scope exactly one
  principal is synthesized and shared by all bindings of that scope, and the statements
  of the binding are attached to it.
\<close>

text \<open>
  Modelled from the spec: the side table, with the default principal of each scope and
  the statements attached to each principal, in the order of attachment.
\<close>

record SideTable =
  principals :: "Construct \<rightharpoonup> IRole"
  grants :: "IRole \<Rightarrow> PolicyStatement list"

text \<open>Modelled from the spec: the side table of a fresh context.\<close>

definition emptyTable :: SideTable where
  "emptyTable = \<lparr> principals = Map.empty, grants = (\<lambda>r. []) \<rparr>"

text \<open>
  Modelled from the spec: \<open>role.addToPolicy(statement)\<close>, which attaches the statement
  to the role unless the role holds it already.
\<close>

definition addToPolicy :: "IRole \<Rightarrow> PolicyStatement \<Rightarrow> SideTable \<Rightarrow> SideTable" where
  "addToPolicy r s t =
     (if s \<in> set (grants t r) then t
      else t\<lparr> grants := (grants t)(r := grants t r @ [s]) \<rparr>)"

text \<open>
  Modelled from the spec: \<open>singletonEventRole(scope, policyStatements)\<close>, which returns
  the principal of the scope, synthesizing it if the scope has none, and attaches the
  statements to it.
\<close>

definition singletonEventRole ::
  "Construct \<Rightarrow> PolicyStatement list \<Rightarrow> SideTable \<Rightarrow> IRole \<times> SideTable" where
  "singletonEventRole scope policyStatements t =
     (let r = (case principals t scope of Some existing \<Rightarrow> existing | None \<Rightarrow> EventsRole scope);
          t' = t\<lparr> principals := (principals t)(scope \<mapsto> r) \<rparr>
      in (r, fold (addToPolicy r) policyStatements t'))"

text \<open>\<open>EventBus.bind\<close> in a context whose shared state is the side table.\<close>

definition bind ::
  "EventBus \<Rightarrow> Construct \<Rightarrow> string option \<Rightarrow> SideTable \<Rightarrow> RuleTargetConfig \<times> SideTable" where
  "bind = bind_with addToPolicy singletonEventRole"

section \<open>Scenarios\<close>

text \<open>
  A stack under the root, as the tests make it, and the tree that holds this stack and
  an API in it; the rule that the event bus targets are bound to; the properties of the
  first test of \<open>test/origin-request-policy.test.ts\<close>; two event bus targets (one
  without a role, one with a role of the caller); an HTTP integration that names neither
  a subtype nor a URI, and one that names a URI.
\<close>

definition theStack :: Construct where
  "theStack = Stack App ''Stack''"

definition theTree :: "Construct list" where
  "theTree = [Stack App ''Stack'', Child (Stack App ''Stack'') ''API'']"

definition theRule :: Construct where
  "theRule = Child (Stack App ''Stack'') ''Rule''"

definition simplePolicyProps :: OriginRequestPolicyProps where
  "simplePolicyProps =
     \<lparr> name = ''OriginRequestPolicy'',
       comment = Some ''comment'',
       cookiesConfig =
         \<lparr> cookieBehavior = Cookies_WHITELIST, cookies = Some [''x-my-cookie''] \<rparr>,
       headersConfig =
         \<lparr> headerBehavior = Headers_WHITELIST, headers = Some [''x-my-header''] \<rparr>,
       queryStringsConfig =
         \<lparr> queryStringBehavior = QueryString_WHITELIST,
           queryStrings = Some [''myQueryString''] \<rparr> \<rparr>"

definition busProps :: EventBusProps where
  "busProps =
     \<lparr> eventBusArn = ''arn:aws:events:us-east-1:111111111111:event-bus/default'',
       role = None \<rparr>"

definition busPropsWithRole :: EventBusProps where
  "busPropsWithRole =
     \<lparr> eventBusArn = ''arn:aws:events:us-east-1:111111111111:event-bus/default'',
       role = Some (Role ''arn:aws:iam::111111111111:role/put-events'') \<rparr>"

definition untargetedProps :: HttpIntegrationProps where
  "untargetedProps =
     \<lparr> httpApi = \<lparr> apiId = ''api'' \<rparr>,
       integrationType = LAMBDA_PROXY,
       integrationSubtype = None,
       integrationUri = None,
       method' = None,
       connectionId = None,
       connectionType = None,
       integrationCredentials = None,
       payloadFormatVersion = Some VERSION_1_0,
       requestParameters = None \<rparr>"

definition proxyProps :: HttpIntegrationProps where
  "proxyProps =
     \<lparr> httpApi = \<lparr> apiId = ''api'' \<rparr>,
       integrationType = HTTP_PROXY,
       integrationSubtype = None,
       integrationUri = Some ''https://example.com/a?b=c'',
       method' = Some ''GET'',
       connectionId = None,
       connectionType = None,
       integrationCredentials = None,
       payloadFormatVersion = None,
       requestParameters = None \<rparr>"

section \<open>Properties\<close>

subsection \<open>Enumerations and the payload format version\<close>

text \<open>
  C4. Every tag of the cookies, headers, query-string, integration-type, connection-type
  and integration-subtype enums maps to its documented literal wire string; in particular
  the cookie tag WHITELIST is written \<open>whitelist\<close> and the header tag
  ALL_VIEWER_AND_WHITELIST_CLOUDFRONT is written \<open>allViewerAndWhitelistCloudFront\<close>.
\<close>

theorem enum_wire_strings:
  "CookiesCacheBehaviorType_value Cookies_NONE = ''none''
   \<and> CookiesCacheBehaviorType_value Cookies_WHITELIST = ''whitelist''
   \<and> CookiesCacheBehaviorType_value Cookies_ALL = ''all''
   \<and> HeadersCacheBehaviorType_value Headers_NONE = ''none''
   \<and> HeadersCacheBehaviorType_value Headers_WHITELIST = ''whitelist''
   \<and> HeadersCacheBehaviorType_value Headers_ALL_VIEWER = ''allViewer''
   \<and> HeadersCacheBehaviorType_value Headers_ALL_VIEWER_AND_WHITELIST_CLOUDFRONT
       = ''allViewerAndWhitelistCloudFront''
   \<and> QueryStringCacheBehaviorType_value QueryString_NONE = ''none''
   \<and> QueryStringCacheBehaviorType_value QueryString_WHITELIST = ''whitelist''
   \<and> QueryStringCacheBehaviorType_value QueryString_ALL = ''all''
   \<and> HttpIntegrationType_value LAMBDA_PROXY = ''AWS_PROXY''
   \<and> HttpIntegrationType_value HTTP_PROXY = ''HTTP_PROXY''
   \<and> HttpConnectionType_value VPC_LINK = ''VPC_LINK''
   \<and> HttpConnectionType_value INTERNET = ''INTERNET''
   \<and> HttpIntegrationSubtype_value EVENTBRIDGE_PUTEVENTS = ''EventBridge-PutEvents''
   \<and> HttpIntegrationSubtype_value SQS_SENDMESSAGE = ''SQS-SendMessage''
   \<and> HttpIntegrationSubtype_value SQS_RECEIVEMESSAGE = ''SQS-ReceiveMessage''
   \<and> HttpIntegrationSubtype_value SQS_DELETEMESSAGE = ''SQS-DeleteMessage''"
  by simp

text \<open>
  C8. PayloadFormatVersion wraps a string: the two named constants carry \<open>1.0\<close> and
  \<open>2.0\<close>, and \<open>custom v\<close> carries exactly \<open>v\<close>, for every string \<open>v\<close>.
\<close>

theorem PayloadFormatVersion_version:
  "version VERSION_1_0 = ''1.0''
   \<and> version VERSION_2_0 = ''2.0''
   \<and> version (custom v) = v"
  by (simp add: VERSION_1_0_def VERSION_2_0_def custom_def)

subsection \<open>Construction outside a stack, or under a used or empty identifier\<close>

text \<open>
  Where the constructor of the base class throws, both constructors fail with its error,
  whatever the properties and the low-level constructor are, and nothing is emitted.
\<close>

lemma Resource_super_rejects:
  assumes "i = [] \<or> Some (scope, i) \<in> set (map scopeAndId tree) \<or> \<not> hasStack scope"
  shows "isl (Resource_super tree scope i)"
  using assms by (auto simp: Resource_super_def)

lemma HttpIntegration_new_super_throws:
  "Resource_super tree scope i = Inl e \<Longrightarrow>
   HttpIntegration_new (Resource_super tree) cfn scope i props = Inl e"
  by (simp add: HttpIntegration_new_def)

lemma OriginRequestPolicy_new_super_throws:
  "Resource_super tree scope i = Inl e \<Longrightarrow>
   OriginRequestPolicy_new (Resource_super tree) cfn scope i props = Inl e"
  by (simp add: OriginRequestPolicy_new_def)

lemma HttpIntegration_new_under_root:
  "HttpIntegration_new (Resource_super tree) cfn App ''Integ'' props
     = Inl (Error ''no enclosing stack'')
   \<or> HttpIntegration_new (Resource_super tree) cfn App ''Integ'' props
     = Inl (Error ''duplicate construct id'')"
  by (simp add: HttpIntegration_new_def Resource_super_def)

subsection \<open>The HTTP integration\<close>

text \<open>
  C1 as the spec has it: with neither a subtype nor a URI, construction fails before a
  fragment is emitted. The constructor has no such check. In a stack, under an
  identifier that is new there, and with a low-level constructor that accepts every
  record, the untargeted properties do not fail: one fragment is emitted, in which both
  fields are absent.
\<close>

theorem HttpIntegration_new_untargeted_succeeds:
  "\<not> isl (HttpIntegration_new (Resource_super theTree) CfnResource theStack ''Integ''
            untargetedProps)
   \<and> snd (projr (HttpIntegration_new (Resource_super theTree) CfnResource theStack ''Integ''
                   untargetedProps))
      = [(Child (Child (Stack App ''Stack'') ''Integ'') ''Resource'',
          \<lparr> cfn_apiId = ''api'', cfn_integrationType = ''AWS_PROXY'',
            cfn_integrationSubtype = None, cfn_integrationUri = None,
            cfn_integrationMethod = None, cfn_connectionId = None,
            cfn_connectionType = None, cfn_credentialsArn = None,
            cfn_payloadFormatVersion = Some ''1.0'', cfn_requestParameters = None \<rparr>)]"
  by (simp add: HttpIntegration_new_def Resource_super_def CfnResource_def theTree_def
        theStack_def untargetedProps_def VERSION_1_0_def)

text \<open>
  C1, amended. When both \<open>integrationSubtype\<close> and \<open>integrationUri\<close> are absent, the
  constructor does not check them. It fails where the constructor of the base class
  rejects the scope and the identifier, with that error and before the low-level
  constructor is called. Otherwise it hands the low-level constructor a record \<open>r\<close> in
  which both fields are absent, and its outcome is that constructor's outcome on \<open>r\<close>:
  the same error and nothing emitted if it throws, else the instance and exactly one
  fragment, \<open>r\<close>. No partial fragment is produced.
\<close>

theorem HttpIntegration_new_no_check:
  assumes "integrationSubtype props = None" and "integrationUri props = None"
  shows "\<exists>r. cfn_integrationSubtype r = None \<and> cfn_integrationUri r = None
     \<and> HttpIntegration_new res cfn scope i props =
         (case res scope i of
            Inl e \<Rightarrow> Inl e
          | Inr u \<Rightarrow>
             (case cfn (Child scope i) ''Resource'' r of
                Inl e \<Rightarrow> Inl e
              | Inr ref \<Rightarrow> Inr (\<lparr> integrationId = ref, this_httpApi = httpApi props \<rparr>,
                              [(Child (Child scope i) ''Resource'', r)])))"
proof -
  let ?r = "\<lparr> cfn_apiId = apiId (httpApi props),
      cfn_integrationType = HttpIntegrationType_value (integrationType props),
      cfn_integrationSubtype = None,
      cfn_integrationUri = None,
      cfn_integrationMethod = method' props,
      cfn_connectionId = connectionId props,
      cfn_connectionType = map_option HttpConnectionType_value (connectionType props),
      cfn_credentialsArn = map_option credentials (integrationCredentials props),
      cfn_payloadFormatVersion = map_option version (payloadFormatVersion props),
      cfn_requestParameters = requestParameters props \<rparr>"
  from assms have "HttpIntegration_new res cfn scope i props =
         (case res scope i of
            Inl e \<Rightarrow> Inl e
          | Inr u \<Rightarrow>
             (case cfn (Child scope i) ''Resource'' ?r of
                Inl e \<Rightarrow> Inl e
              | Inr ref \<Rightarrow> Inr (\<lparr> integrationId = ref, this_httpApi = httpApi props \<rparr>,
                              [(Child (Child scope i) ''Resource'', ?r)])))"
    by (simp add: HttpIntegration_new_def Let_def split: sum.split)
  moreover have "cfn_integrationSubtype ?r = None" and "cfn_integrationUri ?r = None"
    by simp_all
  ultimately show ?thesis by blast
qed

text \<open>
  The untargeted properties in the stack: the base class accepts the scope and the
  identifier, and the construction yields one fragment without a subtype and a URI.
\<close>

theorem HttpIntegration_new_no_check_witness:
  "integrationSubtype untargetedProps = None \<and> integrationUri untargetedProps = None
   \<and> Resource_super theTree theStack ''Integ'' = Inr ()
   \<and> (\<exists>r. cfn_integrationSubtype r = None \<and> cfn_integrationUri r = None
        \<and> \<not> isl (HttpIntegration_new (Resource_super theTree) CfnResource theStack ''Integ''
                    untargetedProps)
        \<and> snd (projr (HttpIntegration_new (Resource_super theTree) CfnResource theStack
                        ''Integ'' untargetedProps))
            = [(Child (Child theStack ''Integ'') ''Resource'', r)])"
proof -
  have s: "integrationSubtype untargetedProps = None"
    and u: "integrationUri untargetedProps = None"
    by (simp_all add: untargetedProps_def)
  have a: "Resource_super theTree theStack ''Integ'' = Inr ()"
    by (simp add: Resource_super_def theTree_def theStack_def)
  from HttpIntegration_new_no_check [OF s u, of "Resource_super theTree" CfnResource
         theStack "''Integ''"] s u a
  show ?thesis by (auto simp: CfnResource_def)
qed

subsection \<open>The origin request policy\<close>

text \<open>
  C6. With the cookie behaviour WHITELIST and the cookie list \<open>["x-my-cookie"]\<close>, the
  constructor of OriginRequestPolicy hands the low-level resource a record \<open>r\<close> whose
  cookies section is exactly the behaviour \<open>whitelist\<close> with the names
  \<open>["x-my-cookie"]\<close>, rendered under the keys CookieBehavior and Cookies, with no other
  cookie field; \<open>r\<close> is the one fragment of the policy. This is said of the record the
  low-level constructor is called with: the outcome of the construction is the error of
  the base class constructor if that throws, and else the outcome of the low-level
  constructor on \<open>r\<close>.
\<close>

theorem cookies_whitelist_fragment:
  assumes "cookiesConfig props =
             \<lparr> cookieBehavior = Cookies_WHITELIST, cookies = Some [''x-my-cookie''] \<rparr>"
  shows "\<exists>r. cfn_cookiesConfig (originRequestPolicyConfig r)
               = \<lparr> cfn_cookieBehavior = ''whitelist'', cfn_cookies = Some [''x-my-cookie''] \<rparr>
     \<and> renderCookiesConfig (cfn_cookiesConfig (originRequestPolicyConfig r))
           = JObject [(''CookieBehavior'', JString ''whitelist''),
                      (''Cookies'', JArray [JString ''x-my-cookie''])]
     \<and> OriginRequestPolicy_new res cfn scope i props =
         (case res scope i of
            Inl e \<Rightarrow> Inl e
          | Inr u \<Rightarrow>
             (case cfn (Child scope i) ''Resource'' r of
                Inl e \<Rightarrow> Inl e
              | Inr attrId \<Rightarrow>
                  Inr (\<lparr> originRequestPolicyId = attrId, lastModifiedTime = [] \<rparr>,
                       [(Child (Child scope i) ''Resource'', r)])))"
proof -
  let ?r = "\<lparr> originRequestPolicyConfig = \<lparr>
      cfn_name = name props,
      cfn_comment = comment props,
      cfn_cookiesConfig =
        \<lparr> cfn_cookieBehavior = ''whitelist'', cfn_cookies = Some [''x-my-cookie''] \<rparr>,
      cfn_headersConfig = asHeadersConfigProperty (headersConfig props),
      cfn_queryStringsConfig = asQueryStringsConfigProperty (queryStringsConfig props) \<rparr> \<rparr>"
  from assms have "OriginRequestPolicy_new res cfn scope i props =
         (case res scope i of
            Inl e \<Rightarrow> Inl e
          | Inr u \<Rightarrow>
             (case cfn (Child scope i) ''Resource'' ?r of
                Inl e \<Rightarrow> Inl e
              | Inr attrId \<Rightarrow>
                  Inr (\<lparr> originRequestPolicyId = attrId, lastModifiedTime = [] \<rparr>,
                       [(Child (Child scope i) ''Resource'', ?r)])))"
    by (simp add: OriginRequestPolicy_new_def Let_def asCookiesConfigProperty_def
          split: sum.split)
  moreover have "cfn_cookiesConfig (originRequestPolicyConfig ?r)
      = \<lparr> cfn_cookieBehavior = ''whitelist'', cfn_cookies = Some [''x-my-cookie''] \<rparr>"
    by simp
  moreover have "renderCookiesConfig (cfn_cookiesConfig (originRequestPolicyConfig ?r))
      = JObject [(''CookieBehavior'', JString ''whitelist''),
                 (''Cookies'', JArray [JString ''x-my-cookie''])]"
    by (simp add: renderCookiesConfig_def optionalKey_def stringList_def)
  ultimately show ?thesis by blast
qed

text \<open>
  The scenario of the test, in the stack: the construction succeeds, and the one
  fragment has the cookies section of the claim and renders as the expected template.
\<close>

theorem cookies_whitelist_fragment_witness:
  "cookiesConfig simplePolicyProps =
      \<lparr> cookieBehavior = Cookies_WHITELIST, cookies = Some [''x-my-cookie''] \<rparr>
   \<and> \<not> isl (OriginRequestPolicy_new (Resource_super theTree) CfnResource theStack
               ''CustomOriginRequestPolicy'' simplePolicyProps)
   \<and> (\<exists>r. cfn_cookiesConfig (originRequestPolicyConfig r)
               = \<lparr> cfn_cookieBehavior = ''whitelist'', cfn_cookies = Some [''x-my-cookie''] \<rparr>
        \<and> snd (projr (OriginRequestPolicy_new (Resource_super theTree) CfnResource theStack
                 ''CustomOriginRequestPolicy'' simplePolicyProps))
            = [(Child (Child theStack ''CustomOriginRequestPolicy'') ''Resource'', r)])
   \<and> map (renderOriginRequestPolicy \<circ> snd)
         (snd (projr (OriginRequestPolicy_new (Resource_super theTree) CfnResource theStack
                 ''CustomOriginRequestPolicy'' simplePolicyProps)))
      = [JObject [(''OriginRequestPolicyConfig'', JObject [
           (''Name'', JString ''OriginRequestPolicy''),
           (''Comment'', JString ''comment''),
           (''CookiesConfig'', JObject [(''CookieBehavior'', JString ''whitelist''),
                                       (''Cookies'', JArray [JString ''x-my-cookie''])]),
           (''HeadersConfig'', JObject [(''HeaderBehavior'', JString ''whitelist''),
                                       (''Headers'', JArray [JString ''x-my-header''])]),
           (''QueryStringsConfig'', JObject [(''QueryStringBehavior'', JString ''whitelist''),
                                       (''QueryStrings'', JArray [JString ''myQueryString''])])])]]"
proof -
  have c: "cookiesConfig simplePolicyProps =
      \<lparr> cookieBehavior = Cookies_WHITELIST, cookies = Some [''x-my-cookie''] \<rparr>"
    by (simp add: simplePolicyProps_def)
  have a: "Resource_super theTree theStack ''CustomOriginRequestPolicy'' = Inr ()"
    by (simp add: Resource_super_def theTree_def theStack_def)
  have r: "map (renderOriginRequestPolicy \<circ> snd)
         (snd (projr (OriginRequestPolicy_new (Resource_super theTree) CfnResource theStack
                 ''CustomOriginRequestPolicy'' simplePolicyProps)))
      = [JObject [(''OriginRequestPolicyConfig'', JObject [
           (''Name'', JString ''OriginRequestPolicy''),
           (''Comment'', JString ''comment''),
           (''CookiesConfig'', JObject [(''CookieBehavior'', JString ''whitelist''),
                                       (''Cookies'', JArray [JString ''x-my-cookie''])]),
           (''HeadersConfig'', JObject [(''HeaderBehavior'', JString ''whitelist''),
                                       (''Headers'', JArray [JString ''x-my-header''])]),
           (''QueryStringsConfig'', JObject [(''QueryStringBehavior'', JString ''whitelist''),
                                       (''QueryStrings'', JArray [JString ''myQueryString''])])])]]"
    by (simp add: OriginRequestPolicy_new_def a CfnResource_def simplePolicyProps_def
          renderOriginRequestPolicy_def renderCookiesConfig_def renderHeadersConfig_def
          renderQueryStringsConfig_def optionalKey_def stringList_def
          asCookiesConfigProperty_def asHeadersConfigProperty_def
          asQueryStringsConfigProperty_def)
  from cookies_whitelist_fragment [OF c, of "Resource_super theTree" CfnResource theStack
         "''CustomOriginRequestPolicy''"] a
  have "\<exists>r. cfn_cookiesConfig (originRequestPolicyConfig r)
               = \<lparr> cfn_cookieBehavior = ''whitelist'', cfn_cookies = Some [''x-my-cookie''] \<rparr>
        \<and> OriginRequestPolicy_new (Resource_super theTree) CfnResource theStack
                 ''CustomOriginRequestPolicy'' simplePolicyProps
            = Inr (\<lparr> originRequestPolicyId =
                       pathOf (Child (Child theStack ''CustomOriginRequestPolicy'') ''Resource''),
                     lastModifiedTime = [] \<rparr>,
                   [(Child (Child theStack ''CustomOriginRequestPolicy'') ''Resource'', r)])"
    by (auto simp: CfnResource_def)
  then obtain r where
    "cfn_cookiesConfig (originRequestPolicyConfig r)
       = \<lparr> cfn_cookieBehavior = ''whitelist'', cfn_cookies = Some [''x-my-cookie''] \<rparr>"
    and "OriginRequestPolicy_new (Resource_super theTree) CfnResource theStack
                 ''CustomOriginRequestPolicy'' simplePolicyProps
            = Inr (\<lparr> originRequestPolicyId =
                       pathOf (Child (Child theStack ''CustomOriginRequestPolicy'') ''Resource''),
                     lastModifiedTime = [] \<rparr>,
                   [(Child (Child theStack ''CustomOriginRequestPolicy'') ''Resource'', r)])"
    by blast
  with c r show ?thesis by auto
qed

text \<open>
  C10. An origin request policy has the empty string as \<open>lastModifiedTime\<close>, whether it
  comes from \<open>fromId\<close> or from the constructor; \<open>fromId\<close> moreover sets
  \<open>originRequestPolicyId\<close> to exactly the physical identifier it is given.
\<close>

theorem lastModifiedTime_empty:
  "lastModifiedTime (fromId scope logicalId physicalId) = []
   \<and> originRequestPolicyId (fromId scope logicalId physicalId) = physicalId
   \<and> (OriginRequestPolicy_new res cfn scope' i props = Inr (p, frags)
        \<longrightarrow> lastModifiedTime p = [])"
  by (auto simp: fromId_def OriginRequestPolicy_new_def Let_def split: sum.splits)

theorem lastModifiedTime_empty_witness:
  "OriginRequestPolicy_new (Resource_super theTree) CfnResource (Stack App ''Stack'')
       ''CustomOriginRequestPolicy'' simplePolicyProps
     = Inr (\<lparr> originRequestPolicyId = ''Stack/CustomOriginRequestPolicy/Resource'',
              lastModifiedTime = [] \<rparr>,
        [(Child (Child (Stack App ''Stack'') ''CustomOriginRequestPolicy'') ''Resource'',
          \<lparr> originRequestPolicyConfig = \<lparr>
              cfn_name = ''OriginRequestPolicy'',
              cfn_comment = Some ''comment'',
              cfn_cookiesConfig =
                \<lparr> cfn_cookieBehavior = ''whitelist'', cfn_cookies = Some [''x-my-cookie''] \<rparr>,
              cfn_headersConfig =
                \<lparr> cfn_headerBehavior = ''whitelist'', cfn_headers = Some [''x-my-header''] \<rparr>,
              cfn_queryStringsConfig =
                \<lparr> cfn_queryStringBehavior = ''whitelist'',
                  cfn_queryStrings = Some [''myQueryString''] \<rparr> \<rparr> \<rparr>)])
   \<and> lastModifiedTime \<lparr> originRequestPolicyId = ''Stack/CustomOriginRequestPolicy/Resource'',
                         lastModifiedTime = [] \<rparr> = []"
  using lastModifiedTime_empty [of _ _ _ "Resource_super theTree" CfnResource
          "Stack App ''Stack''" "''CustomOriginRequestPolicy''" simplePolicyProps]
  by (simp add: OriginRequestPolicy_new_def Resource_super_def theTree_def CfnResource_def
        simplePolicyProps_def asCookiesConfigProperty_def asHeadersConfigProperty_def
        asQueryStringsConfigProperty_def)

subsection \<open>The event bus target\<close>

text \<open>What \<open>addToPolicy\<close> does to the two components of the side table.\<close>

lemma addToPolicy_grants:
  "grants (addToPolicy r s t) r' =
     (if r' = r \<and> s \<notin> set (grants t r) then grants t r @ [s] else grants t r')"
  by (simp add: addToPolicy_def)

lemma addToPolicy_principals: "principals (addToPolicy r s t) = principals t"
  by (simp add: addToPolicy_def)

lemma addToPolicy_idem: "addToPolicy r s (addToPolicy r s t) = addToPolicy r s t"
  by (simp add: addToPolicy_def)

lemma count_list_distinct: "distinct xs \<Longrightarrow> x \<in> set xs \<Longrightarrow> count_list xs x = 1"
  by (induction xs) auto

lemma count_addToPolicy:
  "distinct (grants t r) \<Longrightarrow> count_list (grants (addToPolicy r s t) r) s = 1"
  by (simp add: addToPolicy_grants count_list_distinct)

text \<open>The two branches of \<open>bind\<close>, by the role of the target.\<close>

lemma bind_Some:
  "this_role this = Some r \<Longrightarrow>
   bind this rule i t =
     (\<lparr> target_id = (case i of Some s \<Rightarrow> s | None \<Rightarrow> []),
        target_arn = this_eventBusArn this, target_role = r \<rparr>,
      addToPolicy r (putEventStatement this) t)"
  by (cases i) (simp_all add: bind_def bind_with_def)

lemma bind_None:
  "this_role this = None \<Longrightarrow>
   bind this rule i t =
     (let r = (case principals t rule of Some e \<Rightarrow> e | None \<Rightarrow> EventsRole rule) in
      (\<lparr> target_id = (case i of Some s \<Rightarrow> s | None \<Rightarrow> []),
         target_arn = this_eventBusArn this, target_role = r \<rparr>,
       addToPolicy r (putEventStatement this)
         (t\<lparr> principals := (principals t)(rule \<mapsto> r) \<rparr>)))"
  by (cases i) (simp_all add: bind_def bind_with_def singletonEventRole_def Let_def)

text \<open>
  C9. The \<open>id\<close> of the returned configuration is the supplied \<open>id\<close> when that is a
  non-empty string, and the empty string when it is absent or empty; it is a string in
  every case. This holds whatever \<open>addToPolicy\<close> and \<open>singletonEventRole\<close> do.
\<close>

theorem bind_target_id:
  "target_id (fst (bind_with a s this rule None w)) = []
   \<and> target_id (fst (bind_with a s this rule (Some []) w)) = []
   \<and> target_id (fst (bind_with a s this rule (Some (c # cs)) w)) = c # cs"
  by (simp add: bind_with_def Let_def split: prod.split option.split)

text \<open>
  C7. Identifiers pass through verbatim: the \<open>arn\<close> of the configuration returned by
  \<open>bind\<close> is the \<open>eventBusArn\<close> of the properties, whatever the two outside operations
  do; and the record \<open>r\<close> that the constructor of HttpIntegration calls the low-level
  resource with has the \<open>integrationUri\<close> of the properties, unchanged. The outcome of
  the construction is the error of the base class constructor if that throws, and else
  the outcome of the low-level constructor on \<open>r\<close>, whose one fragment is \<open>r\<close>.
\<close>

theorem identifiers_verbatim:
  "target_arn (fst (bind_with a s (EventBus_new props) rule i w)) = eventBusArn props
   \<and> (\<exists>r. cfn_integrationUri r = integrationUri hprops
        \<and> HttpIntegration_new res cfn scope j hprops =
            (case res scope j of
               Inl e \<Rightarrow> Inl e
             | Inr u \<Rightarrow>
                (case cfn (Child scope j) ''Resource'' r of
                   Inl e \<Rightarrow> Inl e
                 | Inr ref \<Rightarrow>
                     Inr (\<lparr> integrationId = ref, this_httpApi = httpApi hprops \<rparr>,
                          [(Child (Child scope j) ''Resource'', r)]))))"
proof -
  let ?r = "\<lparr> cfn_apiId = apiId (httpApi hprops),
      cfn_integrationType = HttpIntegrationType_value (integrationType hprops),
      cfn_integrationSubtype =
        map_option HttpIntegrationSubtype_value (integrationSubtype hprops),
      cfn_integrationUri = integrationUri hprops,
      cfn_integrationMethod = method' hprops,
      cfn_connectionId = connectionId hprops,
      cfn_connectionType = map_option HttpConnectionType_value (connectionType hprops),
      cfn_credentialsArn = map_option credentials (integrationCredentials hprops),
      cfn_payloadFormatVersion = map_option version (payloadFormatVersion hprops),
      cfn_requestParameters = requestParameters hprops \<rparr>"
  have arn: "target_arn (fst (bind_with a s (EventBus_new props) rule i w)) = eventBusArn props"
    by (simp add: bind_with_def EventBus_new_def Let_def split: prod.split option.split)
  have "HttpIntegration_new res cfn scope j hprops =
            (case res scope j of
               Inl e \<Rightarrow> Inl e
             | Inr u \<Rightarrow>
                (case cfn (Child scope j) ''Resource'' ?r of
                   Inl e \<Rightarrow> Inl e
                 | Inr ref \<Rightarrow>
                     Inr (\<lparr> integrationId = ref, this_httpApi = httpApi hprops \<rparr>,
                          [(Child (Child scope j) ''Resource'', ?r)])))"
    by (simp add: HttpIntegration_new_def Let_def split: sum.split)
  moreover have "cfn_integrationUri ?r = integrationUri hprops" by simp
  ultimately have "\<exists>r. cfn_integrationUri r = integrationUri hprops
        \<and> HttpIntegration_new res cfn scope j hprops =
            (case res scope j of
               Inl e \<Rightarrow> Inl e
             | Inr u \<Rightarrow>
                (case cfn (Child scope j) ''Resource'' r of
                   Inl e \<Rightarrow> Inl e
                 | Inr ref \<Rightarrow>
                     Inr (\<lparr> integrationId = ref, this_httpApi = httpApi hprops \<rparr>,
                          [(Child (Child scope j) ''Resource'', r)])))"
    by blast
  with arn show ?thesis by blast
qed

text \<open>
  An HTTP proxy integration in the stack and a target bound to the rule: the URI and the
  ARN arrive character for character.
\<close>

theorem identifiers_verbatim_witness:
  "Resource_super theTree theStack ''Integ'' = Inr ()
   \<and> integrationUri proxyProps = Some ''https://example.com/a?b=c''
   \<and> (\<exists>r. cfn_integrationUri r = Some ''https://example.com/a?b=c''
        \<and> \<not> isl (HttpIntegration_new (Resource_super theTree) CfnResource theStack ''Integ''
                    proxyProps)
        \<and> snd (projr (HttpIntegration_new (Resource_super theTree) CfnResource theStack
                        ''Integ'' proxyProps))
            = [(Child (Child theStack ''Integ'') ''Resource'', r)])
   \<and> target_arn (fst (bind (EventBus_new busProps) theRule None emptyTable))
      = ''arn:aws:events:us-east-1:111111111111:event-bus/default''"
proof -
  have a: "Resource_super theTree theStack ''Integ'' = Inr ()"
    by (simp add: Resource_super_def theTree_def theStack_def)
  have u: "integrationUri proxyProps = Some ''https://example.com/a?b=c''"
    and b: "eventBusArn busProps = ''arn:aws:events:us-east-1:111111111111:event-bus/default''"
    by (simp_all add: proxyProps_def busProps_def)
  from identifiers_verbatim [of addToPolicy singletonEventRole busProps theRule None
         emptyTable proxyProps "Resource_super theTree" CfnResource theStack "''Integ''"] a u b
  show ?thesis by (auto simp: CfnResource_def bind_def)
qed

text \<open>
  C5. Resolving the same target twice in the same context gives the same configuration:
  the second \<open>bind\<close>, run on the side table the first one left, returns the \<open>id\<close>, \<open>arn\<close>
  and role of the first.
\<close>

theorem bind_twice_same_config:
  "fst (bind this rule i (snd (bind this rule i t))) = fst (bind this rule i t)"
proof (cases "this_role this")
  case None
  then show ?thesis
    by (simp add: bind_None Let_def addToPolicy_principals)
next
  case (Some r)
  then show ?thesis by (simp add: bind_Some)
qed

text \<open>
  C2. Attaching the statement is idempotent for each principal and statement: a second
  \<open>bind\<close> of the same target on the same rule returns the same principal, leaves the
  side table as the first \<open>bind\<close> left it, and the principal holds the
  \<open>events:PutEvents\<close> statement of the target exactly once. This is so for a role of the
  caller and for the synthesized role alike; the principal is assumed to hold no
  duplicates beforehand, as is the case in every table built by add-if-absent.
\<close>

theorem bind_idempotent:
  assumes "bind this rule i t = (c1, t1)"
      and "bind this rule j t1 = (c2, t2)"
      and "distinct (grants t (target_role c1))"
  shows "target_role c2 = target_role c1 \<and> t2 = t1
    \<and> count_list (grants t2 (target_role c2)) (putEventStatement this) = 1"
proof (cases "this_role this")
  case None
  define r where "r = (case principals t rule of Some e \<Rightarrow> e | None \<Rightarrow> EventsRole rule)"
  define u where "u = t\<lparr> principals := (principals t)(rule \<mapsto> r) \<rparr>"
  from None assms(1) have c1: "target_role c1 = r"
    and t1: "t1 = addToPolicy r (putEventStatement this) u"
    by (auto simp: bind_None Let_def r_def u_def)
  have p1: "principals t1 rule = Some r"
    by (simp add: t1 addToPolicy_principals u_def)
  have u1: "t1\<lparr> principals := (principals t1)(rule \<mapsto> r) \<rparr> = t1"
    by (simp add: t1 addToPolicy_def u_def)
  from None assms(2) p1 u1 have c2: "target_role c2 = r"
    and t2: "t2 = addToPolicy r (putEventStatement this) t1"
    by (auto simp: bind_None Let_def)
  have "grants u r = grants t r" by (simp add: u_def)
  with assms(3) c1 have "distinct (grants u r)" by simp
  then show ?thesis
    by (simp add: c1 c2 t2 t1 addToPolicy_idem count_addToPolicy)
next
  case (Some r)
  with assms show ?thesis
    by (auto simp: bind_Some addToPolicy_idem count_addToPolicy)
qed

text \<open>
  Two bindings of a target that carries a role of the caller, from the empty table: the
  second changes nothing and the role holds one statement.
\<close>

theorem bind_idempotent_witness:
  "bind (EventBus_new busPropsWithRole) theRule (Some ''Target0'') emptyTable
     = (\<lparr> target_id = ''Target0'', target_arn = eventBusArn busPropsWithRole,
          target_role = Role ''arn:aws:iam::111111111111:role/put-events'' \<rparr>,
        \<lparr> principals = Map.empty,
          grants = (\<lambda>r. [])(Role ''arn:aws:iam::111111111111:role/put-events'' :=
            [\<lparr> actions = [''events:PutEvents''],
               resources = [eventBusArn busPropsWithRole] \<rparr>]) \<rparr>)
   \<and> bind (EventBus_new busPropsWithRole) theRule (Some ''Target0'')
        \<lparr> principals = Map.empty,
          grants = (\<lambda>r. [])(Role ''arn:aws:iam::111111111111:role/put-events'' :=
            [\<lparr> actions = [''events:PutEvents''],
               resources = [eventBusArn busPropsWithRole] \<rparr>]) \<rparr>
     = (\<lparr> target_id = ''Target0'', target_arn = eventBusArn busPropsWithRole,
          target_role = Role ''arn:aws:iam::111111111111:role/put-events'' \<rparr>,
        \<lparr> principals = Map.empty,
          grants = (\<lambda>r. [])(Role ''arn:aws:iam::111111111111:role/put-events'' :=
            [\<lparr> actions = [''events:PutEvents''],
               resources = [eventBusArn busPropsWithRole] \<rparr>]) \<rparr>)
   \<and> distinct (grants emptyTable (Role ''arn:aws:iam::111111111111:role/put-events''))
   \<and> count_list
        [\<lparr> actions = [''events:PutEvents''], resources = [eventBusArn busPropsWithRole] \<rparr>]
        (putEventStatement (EventBus_new busPropsWithRole)) = 1"
proof -
  let ?c = "\<lparr> target_id = ''Target0'', target_arn = eventBusArn busPropsWithRole,
          target_role = Role ''arn:aws:iam::111111111111:role/put-events'' \<rparr>"
  let ?t = "\<lparr> principals = Map.empty,
          grants = (\<lambda>r. [])(Role ''arn:aws:iam::111111111111:role/put-events'' :=
            [\<lparr> actions = [''events:PutEvents''],
               resources = [eventBusArn busPropsWithRole] \<rparr>]) \<rparr>"
  have b1: "bind (EventBus_new busPropsWithRole) theRule (Some ''Target0'')
              emptyTable = (?c, ?t)"
    by (simp add: bind_def bind_with_def addToPolicy_def emptyTable_def
          EventBus_new_def putEventStatement_def busPropsWithRole_def)
  have b2: "bind (EventBus_new busPropsWithRole) theRule (Some ''Target0'') ?t
              = (?c, ?t)"
    by (simp add: bind_def bind_with_def addToPolicy_def
          EventBus_new_def putEventStatement_def busPropsWithRole_def)
  have d: "distinct (grants emptyTable (target_role ?c))"
    by (simp add: emptyTable_def)
  from bind_idempotent [OF b1 b2 d] b1 b2 d show ?thesis by simp
qed

text \<open>
  C3. The statement of a target has the action set \<open>['events:PutEvents']\<close> and the
  resource set \<open>[eventBusArn]\<close>. After \<open>bind\<close> the principal of the returned
  configuration holds it exactly once (and holds nothing else if it held nothing
  before), and no other principal is touched. Without a role in the properties the
  principal is the one of the scope: the existing one if the scope has one, else a newly
  synthesized one, which every later binding without a role on that scope gets too. With
  a role in the properties the statement goes to that role, which the configuration
  carries, and no principal is synthesized.
\<close>

theorem bind_principal_and_statement:
  assumes "bind (EventBus_new props) rule i t = (c, t')"
      and "distinct (grants t (target_role c))"
  shows "putEventStatement (EventBus_new props)
           = \<lparr> actions = [''events:PutEvents''], resources = [eventBusArn props] \<rparr>
    \<and> count_list (grants t' (target_role c)) (putEventStatement (EventBus_new props)) = 1
    \<and> (grants t (target_role c) = []
          \<longrightarrow> grants t' (target_role c) = [putEventStatement (EventBus_new props)])
    \<and> (\<forall>r. r \<noteq> target_role c \<longrightarrow> grants t' r = grants t r)
    \<and> (role props = None \<longrightarrow>
          principals t' = (principals t)(rule \<mapsto> target_role c)
          \<and> target_role c = (case principals t rule of
                                Some existing \<Rightarrow> existing | None \<Rightarrow> EventsRole rule)
          \<and> (\<forall>props' j. role props' = None \<longrightarrow>
                target_role (fst (bind (EventBus_new props') rule j t')) = target_role c))
    \<and> (\<forall>r. role props = Some r \<longrightarrow> target_role c = r \<and> principals t' = principals t)"
proof (cases "role props")
  case None
  define r where "r = (case principals t rule of Some e \<Rightarrow> e | None \<Rightarrow> EventsRole rule)"
  define u where "u = t\<lparr> principals := (principals t)(rule \<mapsto> r) \<rparr>"
  from None have n: "this_role (EventBus_new props) = None" by (simp add: EventBus_new_def)
  from n assms(1) have c: "target_role c = r"
    and t': "t' = addToPolicy r (putEventStatement (EventBus_new props)) u"
    by (auto simp: bind_None Let_def r_def u_def)
  have g: "grants u = grants t" and p: "principals u = (principals t)(rule \<mapsto> r)"
    by (simp_all add: u_def)
  from assms(2) have d: "distinct (grants u r)" by (simp add: c g)
  have share: "target_role (fst (bind (EventBus_new props') rule j t')) = r"
    if "role props' = None" for props' j
  proof -
    from that have "this_role (EventBus_new props') = None" by (simp add: EventBus_new_def)
    then show ?thesis by (simp add: bind_None Let_def t' addToPolicy_principals p)
  qed
  have cnt: "count_list (grants t' r) (putEventStatement (EventBus_new props)) = 1"
    unfolding t' using d by (rule count_addToPolicy)
  have rest: "(grants t r = [] \<longrightarrow> grants t' r = [putEventStatement (EventBus_new props)])
      \<and> (\<forall>r'. r' \<noteq> r \<longrightarrow> grants t' r' = grants t r')
      \<and> principals t' = (principals t)(rule \<mapsto> r)"
    by (simp add: t' addToPolicy_grants addToPolicy_principals g p)
  have stmt: "putEventStatement (EventBus_new props)
           = \<lparr> actions = [''events:PutEvents''], resources = [eventBusArn props] \<rparr>"
    by (simp add: putEventStatement_def EventBus_new_def)
  from None cnt rest share stmt show ?thesis
    unfolding c by (simp add: r_def)
next
  case (Some r)
  then have n: "this_role (EventBus_new props) = Some r" by (simp add: EventBus_new_def)
  from n assms(1) have c: "target_role c = r"
    and t': "t' = addToPolicy r (putEventStatement (EventBus_new props)) t"
    by (auto simp: bind_Some)
  from assms(2) have d: "distinct (grants t r)" by (simp add: c)
  have cnt: "count_list (grants t' r) (putEventStatement (EventBus_new props)) = 1"
    unfolding t' using d by (rule count_addToPolicy)
  have rest: "(grants t r = [] \<longrightarrow> grants t' r = [putEventStatement (EventBus_new props)])
      \<and> (\<forall>r'. r' \<noteq> r \<longrightarrow> grants t' r' = grants t r')
      \<and> principals t' = principals t"
    by (simp add: t' addToPolicy_grants addToPolicy_principals)
  have stmt: "putEventStatement (EventBus_new props)
           = \<lparr> actions = [''events:PutEvents''], resources = [eventBusArn props] \<rparr>"
    by (simp add: putEventStatement_def EventBus_new_def)
  from Some cnt rest stmt show ?thesis
    unfolding c by simp
qed

text \<open>
  A target without a role, bound in a fresh context: one principal is synthesized for
  the rule and it holds the one statement.
\<close>

theorem bind_principal_and_statement_witness:
  "bind (EventBus_new busProps) theRule None emptyTable
     = (\<lparr> target_id = [], target_arn = eventBusArn busProps,
          target_role = EventsRole theRule \<rparr>,
        \<lparr> principals = [theRule \<mapsto> EventsRole theRule],
          grants = (\<lambda>r. [])(EventsRole theRule :=
            [\<lparr> actions = [''events:PutEvents''], resources = [eventBusArn busProps] \<rparr>]) \<rparr>)
   \<and> distinct (grants emptyTable (EventsRole theRule))
   \<and> role busProps = None
   \<and> count_list [\<lparr> actions = [''events:PutEvents''], resources = [eventBusArn busProps] \<rparr>]
        (putEventStatement (EventBus_new busProps)) = 1"
proof -
  have b: "bind (EventBus_new busProps) theRule None emptyTable
     = (\<lparr> target_id = [], target_arn = eventBusArn busProps,
          target_role = EventsRole theRule \<rparr>,
        \<lparr> principals = [theRule \<mapsto> EventsRole theRule],
          grants = (\<lambda>r. [])(EventsRole theRule :=
            [\<lparr> actions = [''events:PutEvents''], resources = [eventBusArn busProps] \<rparr>]) \<rparr>)"
    by (simp add: bind_def bind_with_def singletonEventRole_def addToPolicy_def emptyTable_def
          Let_def EventBus_new_def putEventStatement_def busProps_def)
  have d: "distinct (grants emptyTable (target_role
             \<lparr> target_id = [], target_arn = eventBusArn busProps,
               target_role = EventsRole theRule \<rparr>))"
    by (simp add: emptyTable_def)
  have n: "role busProps = None" by (simp add: busProps_def)
  from bind_principal_and_statement [OF b d] b d n show ?thesis by simp
qed

end
